theory Spec2Isabelle
  imports Main "HOL-Library.Sublist" "HOL-Library.AList"
    "HOL-Library.Char_ord" "HOL-Library.List_Lexorder"
begin

section \<open>R2StorageAdapter: hierarchical keys over a flat blob store\<close>

text \<open>
  A JavaScript string is modelled as the list of its symbols (\<open>string\<close>); the separator
  \<open>'/'\<close> is a single symbol, so \<open>join\<close> and \<open>split\<close> act on the model as they do
  on the source. A \<open>StorageKey\<close> is a \<open>string[]\<close>, a \<open>Uint8Array\<close> is a list of bytes.
\<close>

type_synonym StorageKey = "string list"
type_synonym bytes = "char list"

text \<open>\<open>Array.prototype.join(sep)\<close>: the empty array gives the empty string.\<close>

fun join_with :: "char \<Rightarrow> string list \<Rightarrow> string" where
  "join_with sep [] = []"
| "join_with sep [x] = x"
| "join_with sep (x # y # ys) = x @ sep # join_with sep (y # ys)"

text \<open>
  \<open>String.prototype.split(sep)\<close> with a one-symbol separator: the pieces between the
  occurrences of the separator; the empty string gives one empty piece. The second
  argument is the piece being read.
\<close>

fun split_on :: "char \<Rightarrow> string \<Rightarrow> string \<Rightarrow> string list" where
  "split_on sep cur [] = [cur]"
| "split_on sep cur (c # cs) =
     (if c = sep then cur # split_on sep [] cs else split_on sep (cur @ [c]) cs)"

definition keyToString :: "StorageKey \<Rightarrow> string" where
  "keyToString key = join_with CHR ''/'' key"

definition stringToKey :: "string \<Rightarrow> StorageKey" where
  "stringToKey key = split_on CHR ''/'' [] key"

text \<open>
  The blob store is the external collaborator of the storage boundary: \<open>get\<close>, \<open>put\<close>,
  \<open>delete\<close> and \<open>list(prefix)\<close> over flat keys. Its contents are an association
  list; \<open>put\<close> overwrites or adds, \<open>delete\<close> of an absent key does nothing. One
  call of \<open>list\<close> answers with one page: the stored keys that start with the prefix,
  in lexicographic order, up to the page limit of the store (1000 objects when the
  caller passes no limit, as here); the rest is behind a cursor that the adapter never
  reads. Store operations do not fail in the model and no other party writes between
  two steps of one operation.
\<close>

type_synonym R2Bucket = "(string \<times> bytes) list"

definition bucket_get :: "R2Bucket \<Rightarrow> string \<Rightarrow> bytes option" where
  "bucket_get bucket k = map_of bucket k"

fun bucket_put :: "R2Bucket \<Rightarrow> string \<Rightarrow> bytes \<Rightarrow> R2Bucket" where
  "bucket_put [] k v = [(k, v)]"
| "bucket_put ((k', v') # rest) k v =
     (if k' = k then (k, v) # rest else (k', v') # bucket_put rest k v)"

definition bucket_delete :: "R2Bucket \<Rightarrow> string \<Rightarrow> R2Bucket" where
  "bucket_delete bucket k = filter (\<lambda>obj. fst obj \<noteq> k) bucket"

definition list_page_limit :: nat where
  "list_page_limit = 1000"

definition bucket_list :: "R2Bucket \<Rightarrow> string \<Rightarrow> string list" where
  "bucket_list bucket pre =
     take list_page_limit (sort (filter (prefix pre) (map fst bucket)))"

record Chunk =
  key :: StorageKey
  data :: "bytes option"

definition load :: "R2Bucket \<Rightarrow> StorageKey \<Rightarrow> bytes option" where
  "load bucket k = bucket_get bucket (keyToString k)"

definition save :: "R2Bucket \<Rightarrow> StorageKey \<Rightarrow> bytes \<Rightarrow> R2Bucket" where
  "save bucket k d = bucket_put bucket (keyToString k) d"

definition remove :: "R2Bucket \<Rightarrow> StorageKey \<Rightarrow> R2Bucket" where
  "remove bucket k = bucket_delete bucket (keyToString k)"

text \<open>The loop of \<open>loadRange\<close> over the listed objects, pushing one chunk for each.\<close>

fun loadRange_loop :: "R2Bucket \<Rightarrow> string list \<Rightarrow> Chunk list \<Rightarrow> Chunk list" where
  "loadRange_loop bucket [] chunks = chunks"
| "loadRange_loop bucket (objkey # objects) chunks =
     (let k = stringToKey objkey;
          d = load bucket k
      in loadRange_loop bucket objects (chunks @ [\<lparr>key = k, data = d\<rparr>]))"

definition loadRange :: "R2Bucket \<Rightarrow> StorageKey \<Rightarrow> Chunk list" where
  "loadRange bucket keyPrefix =
     (let pre = keyToString keyPrefix;
          objects = bucket_list bucket (pre @ (if suffix ''/'' pre then '''' else ''/''))
      in loadRange_loop bucket objects [])"

text \<open>The loop of \<open>removeRange\<close>: one delete for each object of the listing.\<close>

fun removeRange_loop :: "R2Bucket \<Rightarrow> string list \<Rightarrow> R2Bucket" where
  "removeRange_loop bucket [] = bucket"
| "removeRange_loop bucket (objkey # objects) =
     removeRange_loop (bucket_delete bucket objkey) objects"

definition removeRange :: "R2Bucket \<Rightarrow> StorageKey \<Rightarrow> R2Bucket" where
  "removeRange bucket keyPrefix =
     (let pre = keyToString keyPrefix;
          objects = bucket_list bucket (pre @ (if suffix ''/'' pre then '''' else ''/''))
      in removeRange_loop bucket objects)"

text \<open>
  A store for concrete instances: \<open>n\<close> objects under the keys \<open>doc1/x\<close>,
  \<open>doc1/xx\<close>, and so on.
\<close>

definition many_objects :: "nat \<Rightarrow> R2Bucket" where
  "many_objects n = map (\<lambda>i. (''doc1/'' @ replicate (Suc i) CHR ''x'', ''v'')) [0..<n]"

section \<open>CloudflareWebSocketAdapter: connection registry and message routing\<close>

text \<open>
  A \<open>WebSocket\<close> object is identified by a number. A \<open>PeerId\<close> is a string; the
  adapter tests peer ids for truthiness, and the empty string is the one string that
  fails that test. \<open>PeerMetadata\<close> is an object of attributes the adapter never
  reads; \<open>{}\<close> is the empty list.
\<close>

type_synonym WebSocket = nat
type_synonym PeerId = string
type_synonym PeerMetadata = "(string \<times> string) list"

definition truthy :: "string option \<Rightarrow> bool" where
  "truthy v = (case v of None \<Rightarrow> False | Some str \<Rightarrow> str \<noteq> [])"

record WebSocketConnection =
  ws :: WebSocket
  conn_peerId :: "PeerId option"
  conn_peerMetadata :: "PeerMetadata option"

text \<open>
  One record for the frames of the wire protocol (\<open>JoinMessage\<close>, \<open>PeerMessage\<close>
  and the engine's \<open>Message\<close>): the fields the adapter reads or writes, each optional
  field absent as \<open>None\<close>, and the remainder of the frame as \<open>body\<close>.
\<close>

record Frame =
  msg_type :: string
  senderId :: PeerId
  targetId :: "PeerId option"
  peerMetadata :: "PeerMetadata option"
  supportedProtocolVersions :: "string list option"
  selectedProtocolVersion :: "string option"
  body :: bytes

text \<open>
  The binary encoding and \<open>TextEncoder\<close> are external: they are parameters of the
  model. \<open>cbor_decode\<close> gives \<open>None\<close> where \<open>cbor.decode\<close> throws.
\<close>

record Codec =
  cbor_decode :: "bytes \<Rightarrow> Frame option"
  cbor_encode :: "Frame \<Rightarrow> bytes"
  text_encode :: "string \<Rightarrow> bytes"

datatype WsData = Text string | Binary bytes

datatype ReadyState = CONNECTING | OPEN | CLOSING | CLOSED

datatype exn = DecodeError | InvalidStateError

datatype NetworkAdapterEvent =
  PeerCandidate PeerId PeerMetadata
| MessageEvent Frame
| CloseEvent

text \<open>
  What the adapter does to the outside, in the order it does it. \<open>WsSend w b\<close> is a
  call \<open>ws.send(b)\<close> on socket \<open>w\<close> that returned.
\<close>

datatype effect =
  CborDecode bytes
| CborEncode Frame
| WsSend WebSocket bytes
| WsClose WebSocket
| Emit NetworkAdapterEvent
| ConsoleError exn

text \<open>
  The adapter's fields (\<open>connections\<close> is a JavaScript \<open>Map\<close>, iterated in insertion
  order; \<open>this_peerId\<close> and \<open>this_peerMetadata\<close> are the fields inherited from
  \<open>NetworkAdapter\<close>, \<open>undefined\<close> until \<open>connect\<close>), the state of every socket
  as the runtime has it (its ready state, and whether a write to it throws while it is
  not open), and the effects so far. Event listeners are outside the model: an emitted
  event is an effect.
\<close>

record Adapter =
  connections :: "(WebSocket \<times> WebSocketConnection) list"
  isConnected :: bool
  this_peerId :: "PeerId option"
  this_peerMetadata :: "PeerMetadata option"
  readyState :: "WebSocket \<Rightarrow> ReadyState"
  sendThrows :: "WebSocket \<Rightarrow> bool"
  trace :: "effect list"

definition new_adapter :: "(WebSocket \<Rightarrow> ReadyState) \<Rightarrow> (WebSocket \<Rightarrow> bool) \<Rightarrow> Adapter" where
  "new_adapter sockets throws =
     \<lparr>connections = [], isConnected = False, this_peerId = None, this_peerMetadata = None,
      readyState = sockets, sendThrows = throws, trace = []\<rparr>"

text \<open>
  \<open>ws.send\<close>: on an open socket the call writes the bytes and returns. On a socket
  that is not open the runtime decides whether the call throws or returns; the
  adapter cannot tell from the ready state. An operation returns the new state and
  the exception that left it, if any.
\<close>

definition ws_send :: "Adapter \<Rightarrow> WebSocket \<Rightarrow> bytes \<Rightarrow> Adapter \<times> exn option" where
  "ws_send s w encoded =
     (if readyState s w \<noteq> OPEN \<and> sendThrows s w then (s, Some InvalidStateError)
      else (s\<lparr>trace := trace s @ [WsSend w encoded]\<rparr>, None))"

definition emit :: "Adapter \<Rightarrow> NetworkAdapterEvent \<Rightarrow> Adapter" where
  "emit s ev = s\<lparr>trace := trace s @ [Emit ev]\<rparr>"

definition addConnection :: "Adapter \<Rightarrow> WebSocket \<Rightarrow> Adapter" where
  "addConnection s w =
     s\<lparr>connections :=
         AList.update w \<lparr>ws = w, conn_peerId = None, conn_peerMetadata = None\<rparr> (connections s)\<rparr>"

definition removeConnection :: "Adapter \<Rightarrow> WebSocket \<Rightarrow> Adapter" where
  "removeConnection s w =
     (let s1 = s\<lparr>connections := AList.delete w (connections s)\<rparr>
      in if length (connections s1) = 0 then s1\<lparr>isConnected := False\<rparr> else s1)"

definition toUint8Array :: "Codec \<Rightarrow> WsData \<Rightarrow> bytes" where
  "toUint8Array codec message =
     (case message of Text str \<Rightarrow> text_encode codec str | Binary buf \<Rightarrow> buf)"

text \<open>
  The \<open>try\<close> block of \<open>handleMessage\<close>, for the connection found: the state where
  the block ends, and the exception that ended it, if one did.
\<close>

definition handleMessage_try ::
  "Codec \<Rightarrow> Adapter \<Rightarrow> WebSocket \<Rightarrow> WebSocketConnection \<Rightarrow> WsData \<Rightarrow> Adapter \<times> exn option" where
  "handleMessage_try codec s w connection message =
     (let buffer = toUint8Array codec message;
          s1 = s\<lparr>trace := trace s @ [CborDecode buffer]\<rparr>
      in case cbor_decode codec buffer of
           None \<Rightarrow> (s1, Some DecodeError)
         | Some decoded \<Rightarrow>
             if msg_type decoded = ''join'' then
               (let s2 = s1\<lparr>connections :=
                            AList.update w
                              (connection\<lparr>conn_peerId := Some (senderId decoded),
                                          conn_peerMetadata := peerMetadata decoded\<rparr>)
                              (connections s1)\<rparr>;
                    replied =
                      (case this_peerId s2 of
                         None \<Rightarrow> (s2, None)
                       | Some selfId \<Rightarrow>
                           if selfId = [] then (s2, None)
                           else
                             (let peerMessage =
                                    \<lparr>msg_type = ''peer'', senderId = selfId,
                                     targetId = Some (senderId decoded),
                                     peerMetadata = this_peerMetadata s2,
                                     supportedProtocolVersions = None,
                                     selectedProtocolVersion = Some ''1'',
                                     body = []\<rparr>;
                                  encoded = cbor_encode codec peerMessage
                              in ws_send (s2\<lparr>trace := trace s2 @ [CborEncode peerMessage]\<rparr>)
                                   w encoded))
                in case replied of
                     (s3, Some e) \<Rightarrow> (s3, Some e)
                   | (s3, None) \<Rightarrow>
                       (emit s3
                          (PeerCandidate (senderId decoded)
                             (case peerMetadata decoded of None \<Rightarrow> [] | Some md \<Rightarrow> md)),
                        None))
             else (emit s1 (MessageEvent decoded), None))"

definition handleMessage ::
  "Codec \<Rightarrow> Adapter \<Rightarrow> WebSocket \<Rightarrow> WsData \<Rightarrow> Adapter \<times> exn option" where
  "handleMessage codec s w message =
     (case map_of (connections s) w of
        None \<Rightarrow> (s, None)
      | Some connection \<Rightarrow>
          (let s1 = (case handleMessage_try codec s w connection message of
                       (s', None) \<Rightarrow> s'
                     | (s', Some e) \<Rightarrow> s'\<lparr>trace := trace s' @ [ConsoleError e]\<rparr>)
           in if \<not> isConnected s1 \<and> truthy (this_peerId s1) \<and> length (connections s1) > 0
              then (s1\<lparr>isConnected := True\<rparr>, None)
              else (s1, None)))"

definition connect :: "Adapter \<Rightarrow> PeerId \<Rightarrow> PeerMetadata option \<Rightarrow> Adapter" where
  "connect s pid md =
     (let s1 = s\<lparr>this_peerId := Some pid, this_peerMetadata := md\<rparr>
      in if length (connections s1) > 0 then s1\<lparr>isConnected := True\<rparr> else s1)"

text \<open>The loop of \<open>send\<close> for a frame with a target: it returns at the first match.\<close>

fun send_target ::
  "Codec \<Rightarrow> Adapter \<Rightarrow> Frame \<Rightarrow> PeerId \<Rightarrow> (WebSocket \<times> WebSocketConnection) list \<Rightarrow>
     Adapter \<times> exn option" where
  "send_target codec s message tid [] = (s, None)"
| "send_target codec s message tid ((w, connection) # rest) =
     (if conn_peerId connection = Some tid \<and> readyState s w = OPEN
      then (let encoded = cbor_encode codec message
            in ws_send (s\<lparr>trace := trace s @ [CborEncode message]\<rparr>) w encoded)
      else send_target codec s message tid rest)"

text \<open>The loop of \<open>send\<close> for a frame without a target, over the bytes encoded before it.\<close>

fun send_broadcast ::
  "Adapter \<Rightarrow> bytes \<Rightarrow> (WebSocket \<times> WebSocketConnection) list \<Rightarrow> Adapter \<times> exn option" where
  "send_broadcast s encoded [] = (s, None)"
| "send_broadcast s encoded ((w, connection) # rest) =
     (if truthy (conn_peerId connection) \<and> readyState s w = OPEN
      then (case ws_send s w encoded of
              (s', Some e) \<Rightarrow> (s', Some e)
            | (s', None) \<Rightarrow> send_broadcast s' encoded rest)
      else send_broadcast s encoded rest)"

definition send :: "Codec \<Rightarrow> Adapter \<Rightarrow> Frame \<Rightarrow> Adapter \<times> exn option" where
  "send codec s message =
     (if truthy (targetId message)
      then (case targetId message of
              None \<Rightarrow> (s, None)
            | Some tid \<Rightarrow> send_target codec s message tid (connections s))
      else (let encoded = cbor_encode codec message
            in send_broadcast (s\<lparr>trace := trace s @ [CborEncode message]\<rparr>) encoded
                 (connections s)))"

text \<open>The loop of \<open>disconnect\<close>: every open socket is closed.\<close>

fun disconnect_loop :: "Adapter \<Rightarrow> (WebSocket \<times> WebSocketConnection) list \<Rightarrow> Adapter" where
  "disconnect_loop s [] = s"
| "disconnect_loop s ((w, connection) # rest) =
     (if readyState s w = OPEN
      then disconnect_loop
             (s\<lparr>readyState := (readyState s)(w := CLOSING), trace := trace s @ [WsClose w]\<rparr>) rest
      else disconnect_loop s rest)"

definition disconnect :: "Adapter \<Rightarrow> Adapter" where
  "disconnect s =
     emit ((disconnect_loop s (connections s))\<lparr>connections := [], isConnected := False\<rparr>)
       CloseEvent"

definition isReady :: "Adapter \<Rightarrow> bool" where
  "isReady s = (isConnected s \<and> this_peerId s \<noteq> None)"

text \<open>
  The operations on a relay, and the steps of the transport layer that change the
  state of a socket. An exception leaving an operation leaves the state it reached.
\<close>

datatype operation =
  AddConnection WebSocket
| RemoveConnection WebSocket
| HandleMessage WebSocket WsData
| Connect PeerId "PeerMetadata option"
| Send Frame
| Disconnect
| Transport WebSocket ReadyState
| TransportThrows WebSocket bool

fun step :: "Codec \<Rightarrow> Adapter \<Rightarrow> operation \<Rightarrow> Adapter" where
  "step codec s (AddConnection w) = addConnection s w"
| "step codec s (RemoveConnection w) = removeConnection s w"
| "step codec s (HandleMessage w message) = fst (handleMessage codec s w message)"
| "step codec s (Connect pid md) = connect s pid md"
| "step codec s (Send message) = fst (send codec s message)"
| "step codec s Disconnect = disconnect s"
| "step codec s (Transport w rs) = s\<lparr>readyState := (readyState s)(w := rs)\<rparr>"
| "step codec s (TransportThrows w b) = s\<lparr>sendThrows := (sendThrows s)(w := b)\<rparr>"

definition run :: "Codec \<Rightarrow> Adapter \<Rightarrow> operation list \<Rightarrow> Adapter" where
  "run codec s ops = foldl (step codec) s ops"

text \<open>
  A small codec for concrete instances: \<open>J\<close> followed by a peer id decodes to that
  peer's join frame, \<open>M\<close> followed by a peer id to a data frame from that peer, and
  nothing else decodes.
\<close>

definition sample_decode :: "bytes \<Rightarrow> Frame option" where
  "sample_decode buffer =
     (case buffer of
        [] \<Rightarrow> None
      | c # rest \<Rightarrow>
          if c = CHR ''J'' then
            Some \<lparr>msg_type = ''join'', senderId = rest, targetId = None, peerMetadata = None,
                  supportedProtocolVersions = Some [''1''], selectedProtocolVersion = None,
                  body = []\<rparr>
          else if c = CHR ''M'' then
            Some \<lparr>msg_type = ''sync'', senderId = rest, targetId = None, peerMetadata = None,
                  supportedProtocolVersions = None, selectedProtocolVersion = None,
                  body = []\<rparr>
          else None)"

definition sample_encode :: "Frame \<Rightarrow> bytes" where
  "sample_encode message =
     msg_type message @ '':'' @ senderId message @ ''>'' @
       (case targetId message of None \<Rightarrow> [] | Some tid \<Rightarrow> tid)"

definition sample_codec :: Codec where
  "sample_codec =
     \<lparr>cbor_decode = sample_decode, cbor_encode = sample_encode, text_encode = (\<lambda>str. str)\<rparr>"

text \<open>States and frames for concrete instances, built by running operations on a new relay.\<close>

definition sample_message :: "PeerId option \<Rightarrow> Frame" where
  "sample_message tid =
     \<lparr>msg_type = ''sync'', senderId = ''relay'', targetId = tid, peerMetadata = None,
      supportedProtocolVersions = None, selectedProtocolVersion = None, body = ''data''\<rparr>"

definition one_socket :: Adapter where
  "one_socket = run sample_codec (new_adapter (\<lambda>w. OPEN) (\<lambda>w. True)) [Connect ''relay'' None, AddConnection 0]"

definition three_peers :: Adapter where
  "three_peers =
     run sample_codec (new_adapter (\<lambda>w. OPEN) (\<lambda>w. True))
       [Connect ''relay'' None, AddConnection 0, AddConnection 1, AddConnection 2,
        AddConnection 3, HandleMessage 0 (Text ''JA''), HandleMessage 1 (Binary ''JB''),
        HandleMessage 2 (Text ''JC'')]"

definition empty_id_peers :: Adapter where
  "empty_id_peers =
     run sample_codec (new_adapter (\<lambda>w. OPEN) (\<lambda>w. True))
       [Connect ''relay'' None, AddConnection 0, AddConnection 1,
        HandleMessage 0 (Text ''J''), HandleMessage 1 (Text ''JB'')]"

definition empty_self_id :: Adapter where
  "empty_self_id = run sample_codec (new_adapter (\<lambda>w. OPEN) (\<lambda>w. True)) [AddConnection 0, Connect [] None]"

definition closing_socket :: Adapter where
  "closing_socket =
     run sample_codec (new_adapter (\<lambda>w. OPEN) (\<lambda>w. True))
       [Connect ''relay'' None, AddConnection 0, Transport 0 CLOSING]"

section \<open>Facts about key flattening\<close>

lemma split_on_nosep:
  "sep \<notin> set x \<Longrightarrow> split_on sep cur (x @ r) = split_on sep (cur @ x) r"
  by (induction x arbitrary: cur) auto

lemma split_on_join:
  "\<forall>s \<in> set (x # xs). sep \<notin> set s \<Longrightarrow>
     split_on sep cur (join_with sep (x # xs)) = (cur @ x) # xs"
proof (induction xs arbitrary: x cur)
  case Nil
  then show ?case using split_on_nosep [of sep x cur "[]"] by simp
next
  case (Cons y ys)
  have "split_on sep cur (x @ sep # join_with sep (y # ys)) =
      split_on sep (cur @ x) (sep # join_with sep (y # ys))"
    using Cons.prems by (simp add: split_on_nosep)
  also have "\<dots> = (cur @ x) # split_on sep [] (join_with sep (y # ys))" by simp
  also have "\<dots> = (cur @ x) # y # ys" using Cons.IH [of y "[]"] Cons.prems by simp
  finally show ?case by simp
qed

lemma split_on_not_Nil: "split_on sep cur s \<noteq> []"
  by (induction s arbitrary: cur) auto

lemma join_with_Cons_split_on:
  "join_with sep (x # split_on sep cur s) = x @ sep # join_with sep (split_on sep cur s)"
  using split_on_not_Nil [of sep cur s] by (cases "split_on sep cur s") auto

lemma join_with_split_on: "join_with sep (split_on sep cur s) = cur @ s"
proof (induction s arbitrary: cur)
  case Nil
  show ?case by simp
next
  case (Cons c cs)
  show ?case
  proof (cases "c = sep")
    case True
    then show ?thesis using Cons.IH [of "[]"] by (simp add: join_with_Cons_split_on)
  next
    case False
    then show ?thesis using Cons.IH [of "cur @ [c]"] by simp
  qed
qed

lemma keyToString_stringToKey: "keyToString (stringToKey k) = k"
  by (simp add: keyToString_def stringToKey_def join_with_split_on)

lemma stringToKey_keyToString_valid:
  "k \<noteq> [] \<Longrightarrow> \<forall>s \<in> set k. CHR ''/'' \<notin> set s \<Longrightarrow> stringToKey (keyToString k) = k"
  unfolding stringToKey_def keyToString_def
  by (cases k) (simp_all add: split_on_join del: join_with.simps)

lemma inj_on_stringToKey: "inj_on stringToKey A"
  by (rule inj_on_inverseI [where g = keyToString]) (simp add: keyToString_stringToKey)

text \<open>
  Claim C1, as stated: for every storage key whose segments contain no \<open>'/'\<close>,
  \<open>stringToKey (keyToString k) = k\<close>. The empty key is such a key, and it does not
  come back: \<open>[].join('/')\<close> is the empty string, and splitting the empty string
  gives the key with one empty segment.
\<close>

theorem keyToString_roundtrip_empty_key:
  "stringToKey (keyToString []) = [[]] \<and> stringToKey (keyToString []) \<noteq> []"
  by (simp add: stringToKey_def keyToString_def)

text \<open>
  Claim C1, amended: for every non-empty storage key whose segments contain no
  \<open>'/'\<close>, unflattening the flattened form recovers the key exactly.
\<close>

theorem keyToString_roundtrip:
  assumes "k \<noteq> []" and "\<forall>s \<in> set k. CHR ''/'' \<notin> set s"
  shows "stringToKey (keyToString k) = k"
proof -
  obtain x xs where k: "k = x # xs" using assms(1) by (cases k) auto
  have "split_on CHR ''/'' [] (join_with CHR ''/'' (x # xs)) = ([] @ x) # xs"
    using assms(2) unfolding k by (rule split_on_join)
  then show ?thesis by (simp add: k stringToKey_def keyToString_def del: join_with.simps)
qed

theorem keyToString_roundtrip_witness:
  "[''doc1'', ''snapshot'', ''9f3a''] \<noteq> [] \<and>
   CHR ''/'' \<notin> set ''doc1'' \<and> CHR ''/'' \<notin> set ''snapshot'' \<and> CHR ''/'' \<notin> set ''9f3a'' \<and>
   stringToKey (keyToString [''doc1'', ''snapshot'', ''9f3a'']) = [''doc1'', ''snapshot'', ''9f3a'']"
  using keyToString_roundtrip [of "[''doc1'', ''snapshot'', ''9f3a'']"] by simp

section \<open>Facts about range operations\<close>

lemma load_stringToKey: "load bucket (stringToKey k) = bucket_get bucket k"
  by (simp add: load_def keyToString_stringToKey)

lemma loadRange_loop_map:
  "loadRange_loop bucket objects chunks =
     chunks @ map (\<lambda>k. \<lparr>key = stringToKey k, data = bucket_get bucket k\<rparr>) objects"
  by (induction objects arbitrary: chunks) (simp_all add: load_stringToKey)

lemma loadRange_map:
  "loadRange bucket p =
     map (\<lambda>k. \<lparr>key = stringToKey k, data = bucket_get bucket k\<rparr>)
       (take list_page_limit
          (sort (filter (prefix (keyToString p @
                           (if suffix ''/'' (keyToString p) then [] else ''/'')))
                   (map fst bucket))))"
  by (simp add: loadRange_def loadRange_loop_map bucket_list_def Let_def)

lemma loadRange_length:
  "length (loadRange bucket p) =
     min list_page_limit
       (length (filter (prefix (keyToString p @
                          (if suffix ''/'' (keyToString p) then [] else ''/'')))
                  (map fst bucket)))"
  by (simp add: loadRange_map min.commute split del: if_split)

lemma removeRange_loop_filter:
  "removeRange_loop bucket objects = filter (\<lambda>obj. fst obj \<notin> set objects) bucket"
  by (induction objects arbitrary: bucket) (auto simp: bucket_delete_def intro: filter_cong)

lemma removeRange_filter:
  "removeRange bucket p =
     filter (\<lambda>obj. fst obj \<notin>
         set (take list_page_limit
                (sort (filter (prefix (keyToString p @
                                 (if suffix ''/'' (keyToString p) then [] else ''/'')))
                         (map fst bucket)))))
       bucket"
  by (simp add: removeRange_def removeRange_loop_filter bucket_list_def Let_def
      split del: if_split)

lemma loadRange_doc1_doc10:
  "loadRange (save (save [] [''doc1'', ''a''] x) [''doc10'', ''a''] y) [''doc1''] =
     [\<lparr>key = [''doc1'', ''a''], data = Some x\<rparr>]"
  by (simp add: loadRange_def save_def keyToString_def stringToKey_def bucket_list_def
      load_def bucket_get_def suffix_def list_page_limit_def)

text \<open>
  When the keys that match fit in one page of the listing, \<open>loadRange\<close> returns all
  of them and \<open>removeRange\<close> deletes all of them.
\<close>

lemma loadRange_within_page:
  assumes "length (filter (prefix (keyToString p @
                          (if suffix ''/'' (keyToString p) then [] else ''/'')))
                  (map fst bucket)) \<le> list_page_limit"
  shows "map (keyToString \<circ> key) (loadRange bucket p) =
     sort (filter (prefix (keyToString p @
                     (if suffix ''/'' (keyToString p) then [] else ''/'')))
             (map fst bucket))"
  using assms unfolding loadRange_map
  by (simp add: comp_def keyToString_stringToKey split del: if_split)

lemma removeRange_within_page:
  assumes "length (filter (prefix (keyToString p @
                          (if suffix ''/'' (keyToString p) then [] else ''/'')))
                  (map fst bucket)) \<le> list_page_limit"
  shows "removeRange bucket p =
       filter (\<lambda>obj. \<not> prefix (keyToString p @
                  (if suffix ''/'' (keyToString p) then [] else ''/'')) (fst obj)) bucket"
    and "loadRange (removeRange bucket p) p = []"
proof -
  let ?lp = "keyToString p @ (if suffix ''/'' (keyToString p) then [] else ''/'')"
  show r: "removeRange bucket p = filter (\<lambda>obj. \<not> prefix ?lp (fst obj)) bucket"
    using assms unfolding removeRange_filter
    by (auto simp: split del: if_split intro!: filter_cong)
  show "loadRange (removeRange bucket p) p = []"
    unfolding r loadRange_map by (simp add: filter_map comp_def split del: if_split)
qed

text \<open>The store holds each flat key once: \<open>put\<close> and \<open>delete\<close> keep the keys distinct.\<close>

lemma bucket_put_keys: "fst ` set (bucket_put bucket k v) = insert k (fst ` set bucket)"
  by (induction bucket k v rule: bucket_put.induct) auto

lemma distinct_bucket_put:
  "distinct (map fst bucket) \<Longrightarrow> distinct (map fst (bucket_put bucket k v))"
  by (induction bucket k v rule: bucket_put.induct) (auto simp: bucket_put_keys)

lemma distinct_bucket_delete:
  "distinct (map fst bucket) \<Longrightarrow> distinct (map fst (bucket_delete bucket k))"
  by (simp add: bucket_delete_def distinct_map_filter)

text \<open>Beyond one page: a store with more matching objects than one listing holds.\<close>

lemma many_objects_keys:
  "length (many_objects n) = n"
  "distinct (map fst (many_objects n))"
  "filter (prefix ''doc1/'') (map fst (many_objects n)) = map fst (many_objects n)"
proof -
  show "length (many_objects n) = n" by (simp add: many_objects_def)
  have "inj_on (\<lambda>i. ''doc1/'' @ replicate (Suc i) CHR ''x'') {0..<n}"
    by (rule inj_onI) simp
  then show "distinct (map fst (many_objects n))"
    by (simp add: many_objects_def comp_def distinct_map)
  show "filter (prefix ''doc1/'') (map fst (many_objects n)) = map fst (many_objects n)"
    by (simp add: many_objects_def comp_def filter_map)
qed

lemma listing_prefix_doc1:
  "keyToString [''doc1''] @ (if suffix ''/'' (keyToString [''doc1'']) then [] else ''/'') = ''doc1/''"
  by (simp add: keyToString_def suffix_def)

lemma length_filter_not_in:
  assumes "distinct (map fst bucket)" and "distinct ks" and "set ks \<subseteq> fst ` set bucket"
  shows "length (filter (\<lambda>obj. fst obj \<notin> set ks) bucket) = length bucket - length ks"
proof -
  have "length (filter (\<lambda>obj. fst obj \<notin> set ks) bucket) =
      length (filter (\<lambda>k. k \<notin> set ks) (map fst bucket))"
    by (simp add: filter_map comp_def)
  also have "\<dots> = card (set (filter (\<lambda>k. k \<notin> set ks) (map fst bucket)))"
  proof -
    have "distinct (filter (\<lambda>k. k \<notin> set ks) (map fst bucket))"
      using assms(1) by (rule distinct_filter)
    then show ?thesis by (rule distinct_card [symmetric])
  qed
  also have "set (filter (\<lambda>k. k \<notin> set ks) (map fst bucket)) = fst ` set bucket - set ks"
    by auto
  also have "card (fst ` set bucket - set ks) = card (fst ` set bucket) - card (set ks)"
    using assms(3) by (simp add: card_Diff_subset)
  also have "card (fst ` set bucket) = length bucket"
    using assms(1) distinct_card [of "map fst bucket"] by simp
  also have "card (set ks) = length ks" using assms(2) by (simp add: distinct_card)
  finally show ?thesis .
qed

text \<open>
  Claim C2: \<open>loadRange\<close> is to return exactly the stored keys that start with the
  flattened prefix followed by \<open>'/'\<close>. It reads one page of the listing and never
  the cursor: on a store of 1001 objects with distinct keys, all under \<open>doc1/\<close>,
  \<open>loadRange(["doc1"])\<close> returns 1000 chunks, so one stored matching key is missing.
\<close>

theorem loadRange_drops_beyond_page:
  "distinct (map fst (many_objects 1001)) \<and>
   length (filter (prefix ''doc1/'') (map fst (many_objects 1001))) = 1001 \<and>
   length (loadRange (many_objects 1001) [''doc1'']) = 1000"
  by (simp add: many_objects_keys loadRange_length listing_prefix_doc1 list_page_limit_def)


text \<open>
  Claim C8: after \<open>removeRange(prefix)\<close>, \<open>loadRange(prefix)\<close> is to return the
  empty sequence. \<open>removeRange\<close> deletes the objects of one page of the listing: on
  the store of 1001 objects under \<open>doc1/\<close>, one object is left after
  \<open>removeRange(["doc1"])\<close>, and \<open>loadRange(["doc1"])\<close> returns it.
\<close>

theorem removeRange_leaves_beyond_page:
  "length (filter (prefix ''doc1/'') (map fst (many_objects 1001))) = 1001 \<and>
   length (removeRange (many_objects 1001) [''doc1'']) = 1 \<and>
   length (loadRange (removeRange (many_objects 1001) [''doc1'']) [''doc1'']) = 1 \<and>
   loadRange (removeRange (many_objects 1001) [''doc1'']) [''doc1''] \<noteq> []"
proof -
  let ?b = "many_objects 1001"
  let ?page = "take list_page_limit (sort (map fst ?b))"
  have r: "removeRange ?b [''doc1''] = filter (\<lambda>obj. fst obj \<notin> set ?page) ?b"
    by (simp add: removeRange_filter listing_prefix_doc1 many_objects_keys)
  have d: "distinct ?page" by (simp add: many_objects_keys)
  have s: "set ?page \<subseteq> fst ` set ?b" using set_take_subset [of list_page_limit "sort (map fst ?b)"] by simp
  have l: "length ?page = 1000" by (simp add: many_objects_keys list_page_limit_def)
  have n: "length (removeRange ?b [''doc1'']) = 1"
    unfolding r using length_filter_not_in [OF many_objects_keys(2) d s] l
    by (simp add: many_objects_keys)
  have m: "filter (prefix ''doc1/'') (map fst (removeRange ?b [''doc1''])) =
      map fst (removeRange ?b [''doc1''])"
  proof -
    have "\<forall>k \<in> set (map fst ?b). prefix ''doc1/'' k"
      using many_objects_keys(3) [of 1001] by (metis filter_id_conv)
    then have "\<forall>k \<in> set (map fst (removeRange ?b [''doc1''])). prefix ''doc1/'' k"
      unfolding r by auto
    then show ?thesis by (simp only: filter_id_conv)
  qed
  have ll: "length (loadRange (removeRange ?b [''doc1'']) [''doc1'']) = 1"
    by (simp add: loadRange_length listing_prefix_doc1 m n list_page_limit_def)
  then have "loadRange (removeRange ?b [''doc1'']) [''doc1''] \<noteq> []" by auto
  with n ll show ?thesis by (simp add: many_objects_keys)
qed

section \<open>Facts about the adapter\<close>

lemma ws_send_fields [simp]:
  "connections (fst (ws_send s w b)) = connections s"
  "isConnected (fst (ws_send s w b)) = isConnected s"
  "this_peerId (fst (ws_send s w b)) = this_peerId s"
  "this_peerMetadata (fst (ws_send s w b)) = this_peerMetadata s"
  "readyState (fst (ws_send s w b)) = readyState s"
  "sendThrows (fst (ws_send s w b)) = sendThrows s"
  by (simp_all add: ws_send_def)

lemma emit_fields [simp]:
  "connections (emit s ev) = connections s"
  "isConnected (emit s ev) = isConnected s"
  "this_peerId (emit s ev) = this_peerId s"
  "this_peerMetadata (emit s ev) = this_peerMetadata s"
  "readyState (emit s ev) = readyState s"
  "sendThrows (emit s ev) = sendThrows s"
  "trace (emit s ev) = trace s @ [Emit ev]"
  by (simp_all add: emit_def)

lemma handleMessage_try_fields:
  "isConnected (fst (handleMessage_try codec s w c m)) = isConnected s"
  "this_peerId (fst (handleMessage_try codec s w c m)) = this_peerId s"
  "this_peerMetadata (fst (handleMessage_try codec s w c m)) = this_peerMetadata s"
  "readyState (fst (handleMessage_try codec s w c m)) = readyState s"
  by (auto simp: handleMessage_try_def ws_send_def Let_def split: option.splits prod.splits)

lemma handleMessage_try_connections:
  "connections (fst (handleMessage_try codec s w c m)) =
     (case cbor_decode codec (toUint8Array codec m) of
        None \<Rightarrow> connections s
      | Some decoded \<Rightarrow>
          if msg_type decoded = ''join''
          then AList.update w (c\<lparr>conn_peerId := Some (senderId decoded),
                                  conn_peerMetadata := peerMetadata decoded\<rparr>) (connections s)
          else connections s)"
  by (auto simp: handleMessage_try_def ws_send_def Let_def split: option.splits prod.splits)

lemma handleMessage_no_escape: "snd (handleMessage codec s w m) = None"
  by (simp add: handleMessage_def Let_def split: option.splits prod.splits)


lemma handleMessage_fields:
  "this_peerId (fst (handleMessage codec s w m)) = this_peerId s"
  "this_peerMetadata (fst (handleMessage codec s w m)) = this_peerMetadata s"
  "readyState (fst (handleMessage codec s w m)) = readyState s"
proof -
  have "this_peerId (fst (handleMessage codec s w m)) = this_peerId s \<and>
        this_peerMetadata (fst (handleMessage codec s w m)) = this_peerMetadata s \<and>
        readyState (fst (handleMessage codec s w m)) = readyState s"
  proof (cases "map_of (connections s) w")
    case None
    then show ?thesis by (simp add: handleMessage_def)
  next
    case (Some c)
    obtain s' e where t: "handleMessage_try codec s w c m = (s', e)"
      by (cases "handleMessage_try codec s w c m")
    have "this_peerId s' = this_peerId s" "this_peerMetadata s' = this_peerMetadata s"
        "readyState s' = readyState s"
      using handleMessage_try_fields [of codec s w c m] by (simp_all add: t)
    then show ?thesis using Some t by (cases e) (simp_all add: handleMessage_def Let_def)
  qed
  then show "this_peerId (fst (handleMessage codec s w m)) = this_peerId s"
    "this_peerMetadata (fst (handleMessage codec s w m)) = this_peerMetadata s"
    "readyState (fst (handleMessage codec s w m)) = readyState s"
    by simp_all
qed

lemma handleMessage_connections:
  "connections (fst (handleMessage codec s w m)) =
     (case map_of (connections s) w of
        None \<Rightarrow> connections s
      | Some c \<Rightarrow>
         (case cbor_decode codec (toUint8Array codec m) of
            None \<Rightarrow> connections s
          | Some decoded \<Rightarrow>
              if msg_type decoded = ''join''
              then AList.update w (c\<lparr>conn_peerId := Some (senderId decoded),
                                      conn_peerMetadata := peerMetadata decoded\<rparr>) (connections s)
              else connections s))"
proof (cases "map_of (connections s) w")
  case None
  then show ?thesis by (simp add: handleMessage_def)
next
  case (Some c)
  obtain s' e where t: "handleMessage_try codec s w c m = (s', e)" by (cases "handleMessage_try codec s w c m")
  have "connections (fst (handleMessage codec s w m)) = connections s'"
    using Some t by (cases e) (simp_all add: handleMessage_def Let_def)
  moreover have "connections s' = connections (fst (handleMessage_try codec s w c m))"
    by (simp add: t)
  ultimately show ?thesis using Some by (simp add: handleMessage_try_connections)
qed

lemma update_not_Nil: "AList.update k v al \<noteq> []"
  by (cases al) auto

lemma handleMessage_connections_Nil:
  "connections (fst (handleMessage codec s w m)) = [] \<longleftrightarrow> connections s = []"
  by (auto simp: handleMessage_connections update_not_Nil split: option.splits)

lemma handleMessage_isConnected:
  "isConnected (fst (handleMessage codec s w m)) \<longleftrightarrow>
     isConnected s \<or> (map_of (connections s) w \<noteq> None \<and> truthy (this_peerId s))"
proof (cases "map_of (connections s) w")
  case None
  then show ?thesis by (simp add: handleMessage_def)
next
  case (Some c)
  obtain s' e where t: "handleMessage_try codec s w c m = (s', e)" by (cases "handleMessage_try codec s w c m")
  have f: "isConnected s' = isConnected s" "this_peerId s' = this_peerId s"
    using handleMessage_try_fields [of codec s w c m] by (simp_all add: t)
  have "connections s' = connections (fst (handleMessage_try codec s w c m))" by (simp add: t)
  then have n: "connections s' \<noteq> []"
    using Some by (auto simp: handleMessage_try_connections update_not_Nil split: option.splits)
  show ?thesis using Some t f n by (cases e) (auto simp: handleMessage_def Let_def)
qed

lemma send_target_find:
  "send_target codec s m tid conns =
     (case find (\<lambda>(w, c). conn_peerId c = Some tid \<and> readyState s w = OPEN) conns of
        None \<Rightarrow> (s, None)
      | Some (w, c) \<Rightarrow>
          (s\<lparr>trace := trace s @ [CborEncode m, WsSend w (cbor_encode codec m)]\<rparr>, None))"
proof (induction conns)
  case Nil
  show ?case by simp
next
  case (Cons p conns)
  obtain w c where p: "p = (w, c)" by (cases p)
  show ?case unfolding p by (simp add: Cons.IH ws_send_def)
qed

lemma send_broadcast_filter:
  "send_broadcast s encoded conns =
     (s\<lparr>trace := trace s @
          map (\<lambda>(w, c). WsSend w encoded)
            (filter (\<lambda>(w, c). truthy (conn_peerId c) \<and> readyState s w = OPEN) conns)\<rparr>, None)"
proof (induction conns arbitrary: s)
  case Nil
  show ?case by simp
next
  case (Cons p conns)
  obtain w c where p: "p = (w, c)" by (cases p)
  show ?case unfolding p by (simp add: Cons.IH ws_send_def)
qed

lemma send_fields:
  "connections (fst (send codec s m)) = connections s"
  "isConnected (fst (send codec s m)) = isConnected s"
  "this_peerId (fst (send codec s m)) = this_peerId s"
  "readyState (fst (send codec s m)) = readyState s"
  by (auto simp: send_def send_target_find send_broadcast_filter Let_def split: option.splits)

lemma disconnect_loop_fields:
  "connections (disconnect_loop s conns) = connections s"
  "isConnected (disconnect_loop s conns) = isConnected s"
  "this_peerId (disconnect_loop s conns) = this_peerId s"
  by (induction s conns rule: disconnect_loop.induct) simp_all

lemma disconnect_fields:
  "connections (disconnect s) = []"
  "isConnected (disconnect s) = False"
  "this_peerId (disconnect s) = this_peerId s"
  by (simp_all add: disconnect_def disconnect_loop_fields)


lemma step_connections:
  "connections (step codec s op) \<noteq> [] \<Longrightarrow> connections s \<noteq> [] \<or> (\<exists>w. op = AddConnection w)"
  by (cases op)
    (auto simp: removeConnection_def connect_def send_fields handleMessage_connections_Nil
      disconnect_fields Let_def split: if_splits)

lemma step_this_peerId:
  "this_peerId (step codec s op) \<noteq> None \<Longrightarrow>
     this_peerId s \<noteq> None \<or> (\<exists>pid md. op = Connect pid md)"
  by (cases op)
    (auto simp: addConnection_def removeConnection_def send_fields handleMessage_fields
      disconnect_fields Let_def split: if_splits)

lemma step_isConnected_nonempty:
  assumes "isConnected s \<longrightarrow> connections s \<noteq> []"
  shows "isConnected (step codec s op) \<longrightarrow> connections (step codec s op) \<noteq> []"
proof (cases op)
  case (AddConnection w)
  then show ?thesis by (simp add: addConnection_def)
next
  case (RemoveConnection w)
  then show ?thesis by (simp add: removeConnection_def Let_def)
next
  case (HandleMessage w m)
  have "map_of (connections s) w \<noteq> None \<Longrightarrow> connections s \<noteq> []" by auto
  then show ?thesis using assms HandleMessage
    by (auto simp: handleMessage_isConnected handleMessage_connections_Nil)
next
  case (Connect pid md)
  then show ?thesis using assms by (auto simp: connect_def Let_def)
next
  case (Send m)
  then show ?thesis using assms by (simp add: send_fields)
next
  case Disconnect
  then show ?thesis by (simp add: disconnect_fields)
next
  case (Transport w rs)
  then show ?thesis using assms by simp
next
  case (TransportThrows w b)
  then show ?thesis using assms by simp
qed

lemma run_snoc: "run codec s (ops @ [op]) = step codec (run codec s ops) op"
  by (simp add: run_def)

lemma run_invariant:
  "(isConnected (run codec (new_adapter env thr) ops) \<longrightarrow>
      connections (run codec (new_adapter env thr) ops) \<noteq> []) \<and>
   (this_peerId (run codec (new_adapter env thr) ops) \<noteq> None \<longrightarrow>
      (\<exists>pid md. Connect pid md \<in> set ops)) \<and>
   (connections (run codec (new_adapter env thr) ops) \<noteq> [] \<longrightarrow>
      (\<exists>w. AddConnection w \<in> set ops))"
proof (induction ops rule: rev_induct)
  case Nil
  show ?case by (simp add: run_def new_adapter_def)
next
  case (snoc op ops)
  let ?s = "run codec (new_adapter env thr) ops"
  have a: "isConnected (step codec ?s op) \<longrightarrow> connections (step codec ?s op) \<noteq> []"
    using snoc.IH by (intro step_isConnected_nonempty) simp
  have b: "this_peerId (step codec ?s op) \<noteq> None \<longrightarrow> (\<exists>pid md. Connect pid md \<in> set (ops @ [op]))"
    using snoc.IH step_this_peerId [of codec ?s op] by auto
  have c: "connections (step codec ?s op) \<noteq> [] \<longrightarrow> (\<exists>w. AddConnection w \<in> set (ops @ [op]))"
    using snoc.IH step_connections [of codec ?s op] by auto
  show ?case unfolding run_snoc using a b c by blast
qed

lemma step_clears_ready:
  assumes "isConnected s \<longrightarrow> connections s \<noteq> []"
    and "isReady s" and "\<not> isReady (step codec s op)"
  shows "connections s \<noteq> [] \<and> connections (step codec s op) = [] \<and>
     ((\<exists>w. op = RemoveConnection w) \<or> op = Disconnect)"
proof (cases op)
  case (AddConnection w)
  then show ?thesis using assms by (simp add: isReady_def addConnection_def)
next
  case (RemoveConnection w)
  then show ?thesis using assms
    by (auto simp: isReady_def removeConnection_def Let_def split: if_splits)
next
  case (HandleMessage w m)
  then show ?thesis using assms
    by (simp add: isReady_def handleMessage_isConnected handleMessage_fields)
next
  case (Connect pid md)
  then show ?thesis using assms by (simp add: isReady_def connect_def Let_def)
next
  case (Send m)
  then show ?thesis using assms by (simp add: isReady_def send_fields)
next
  case Disconnect
  then show ?thesis using assms by (simp add: isReady_def disconnect_fields)
next
  case (Transport w rs)
  then show ?thesis using assms by (simp add: isReady_def)
next
  case (TransportThrows w b)
  then show ?thesis using assms by (simp add: isReady_def)
qed

text \<open>
  The registry holds one record for each socket: every state reached from a new relay
  has distinct keys in \<open>connections\<close>.
\<close>

lemma step_distinct_connections:
  assumes "distinct (map fst (connections s))"
  shows "distinct (map fst (connections (step codec s op)))"
proof (cases op)
  case (AddConnection w)
  then show ?thesis using assms by (simp add: addConnection_def distinct_update)
next
  case (RemoveConnection w)
  then show ?thesis using assms by (simp add: removeConnection_def Let_def distinct_delete)
next
  case (HandleMessage w m)
  then show ?thesis using assms
    by (simp add: handleMessage_connections distinct_update split: option.splits)
next
  case (Connect pid md)
  then show ?thesis using assms by (simp add: connect_def Let_def)
next
  case (Send m)
  then show ?thesis using assms by (simp add: send_fields)
next
  case Disconnect
  then show ?thesis by (simp add: disconnect_fields)
next
  case (Transport w rs)
  then show ?thesis using assms by simp
next
  case (TransportThrows w b)
  then show ?thesis using assms by simp
qed

lemma run_distinct_connections:
  "distinct (map fst (connections (run codec (new_adapter env thr) ops)))"
proof (induction ops rule: rev_induct)
  case Nil
  show ?case by (simp add: run_def new_adapter_def)
next
  case (snoc op ops)
  then show ?case unfolding run_snoc by (rule step_distinct_connections)
qed

text \<open>
  Claim C4: \<open>isReady()\<close> is false on a new relay; over every sequence of operations
  from a new relay (with any changes of socket state in between), \<open>isReady()\<close> is
  true only if a \<open>connect\<close> and an \<open>addConnection\<close> are among the operations already
  run; and an operation that takes \<open>isReady()\<close> from true to false takes the
  connection set from non-empty to empty (it is a \<open>removeConnection\<close> or a
  \<open>disconnect\<close>).
\<close>

theorem isReady_lifecycle:
  "\<not> isReady (new_adapter env thr) \<and>
   (isReady (run codec (new_adapter env thr) ops) \<longrightarrow>
      (\<exists>pid md. Connect pid md \<in> set ops) \<and> (\<exists>w. AddConnection w \<in> set ops)) \<and>
   (isReady (run codec (new_adapter env thr) ops) \<and>
    \<not> isReady (step codec (run codec (new_adapter env thr) ops) op) \<longrightarrow>
      connections (run codec (new_adapter env thr) ops) \<noteq> [] \<and>
      connections (step codec (run codec (new_adapter env thr) ops) op) = [] \<and>
      ((\<exists>w. op = RemoveConnection w) \<or> op = Disconnect))"
proof (intro conjI impI)
  show "\<not> isReady (new_adapter env thr)" by (simp add: isReady_def new_adapter_def)
next
  assume "isReady (run codec (new_adapter env thr) ops)"
  then show "\<exists>pid md. Connect pid md \<in> set ops"
    using run_invariant [of codec env thr ops] by (simp add: isReady_def)
next
  assume "isReady (run codec (new_adapter env thr) ops)"
  then show "\<exists>w. AddConnection w \<in> set ops"
    using run_invariant [of codec env thr ops] by (simp add: isReady_def)
next
  assume a: "isReady (run codec (new_adapter env thr) ops) \<and>
    \<not> isReady (step codec (run codec (new_adapter env thr) ops) op)"
  have i: "isConnected (run codec (new_adapter env thr) ops) \<longrightarrow>
      connections (run codec (new_adapter env thr) ops) \<noteq> []"
    using run_invariant [of codec env thr ops] by simp
  from step_clears_ready [OF i] a
  show "connections (run codec (new_adapter env thr) ops) \<noteq> []"
    and "connections (step codec (run codec (new_adapter env thr) ops) op) = []"
    and "(\<exists>w. op = RemoveConnection w) \<or> op = Disconnect"
    by blast+
qed

theorem isReady_lifecycle_witness:
  "isReady (run sample_codec (new_adapter (\<lambda>w. OPEN) (\<lambda>w. True)) [AddConnection 0, Connect ''relay'' None]) \<and>
   \<not> isReady (step sample_codec
      (run sample_codec (new_adapter (\<lambda>w. OPEN) (\<lambda>w. True)) [AddConnection 0, Connect ''relay'' None])
      (RemoveConnection 0)) \<and>
   connections (run sample_codec (new_adapter (\<lambda>w. OPEN) (\<lambda>w. True))
      [AddConnection 0, Connect ''relay'' None]) \<noteq> [] \<and>
   connections (step sample_codec
      (run sample_codec (new_adapter (\<lambda>w. OPEN) (\<lambda>w. True)) [AddConnection 0, Connect ''relay'' None])
      (RemoveConnection 0)) = []"
proof -
  have r: "isReady (run sample_codec (new_adapter (\<lambda>w. OPEN) (\<lambda>w. True))
      [AddConnection 0, Connect ''relay'' None])"
    by (simp add: run_def new_adapter_def addConnection_def connect_def isReady_def)
  have n: "\<not> isReady (step sample_codec
      (run sample_codec (new_adapter (\<lambda>w. OPEN) (\<lambda>w. True)) [AddConnection 0, Connect ''relay'' None])
      (RemoveConnection 0))"
    by (simp add: run_def new_adapter_def addConnection_def connect_def isReady_def
        removeConnection_def)
  from isReady_lifecycle [of "\<lambda>w. OPEN" "\<lambda>w. True" sample_codec "[AddConnection 0, Connect ''relay'' None]"
      "RemoveConnection 0"] r n
  show ?thesis by blast
qed

lemma map_of_update_same: "map_of (AList.update k v al) k = Some v"
  by (simp add: update_conv')

lemma one_socket_eq:
  "one_socket =
     \<lparr>connections = [(0, \<lparr>ws = 0, conn_peerId = None, conn_peerMetadata = None\<rparr>)],
      isConnected = False, this_peerId = Some ''relay'', this_peerMetadata = None,
      readyState = (\<lambda>w. OPEN), sendThrows = (\<lambda>w. True), trace = []\<rparr>"
  by (simp add: one_socket_def run_def new_adapter_def connect_def addConnection_def)

lemma three_peers_connections:
  "connections three_peers =
     [(0, \<lparr>ws = 0, conn_peerId = Some ''A'', conn_peerMetadata = None\<rparr>),
      (1, \<lparr>ws = 1, conn_peerId = Some ''B'', conn_peerMetadata = None\<rparr>),
      (2, \<lparr>ws = 2, conn_peerId = Some ''C'', conn_peerMetadata = None\<rparr>),
      (3, \<lparr>ws = 3, conn_peerId = None, conn_peerMetadata = None\<rparr>)]"
  by (simp add: three_peers_def run_def new_adapter_def connect_def addConnection_def
      handleMessage_connections toUint8Array_def sample_codec_def sample_decode_def)

lemma three_peers_readyState: "readyState three_peers = (\<lambda>w. OPEN)"
  by (simp add: three_peers_def run_def new_adapter_def connect_def addConnection_def
      handleMessage_fields)

lemma empty_id_peers_connections:
  "connections empty_id_peers =
     [(0, \<lparr>ws = 0, conn_peerId = Some [], conn_peerMetadata = None\<rparr>),
      (1, \<lparr>ws = 1, conn_peerId = Some ''B'', conn_peerMetadata = None\<rparr>)]"
  by (simp add: empty_id_peers_def run_def new_adapter_def connect_def addConnection_def
      handleMessage_connections toUint8Array_def sample_codec_def sample_decode_def)

lemma empty_id_peers_readyState: "readyState empty_id_peers = (\<lambda>w. OPEN)"
  by (simp add: empty_id_peers_def run_def new_adapter_def connect_def addConnection_def
      handleMessage_fields)

lemma empty_self_id_eq:
  "empty_self_id =
     \<lparr>connections = [(0, \<lparr>ws = 0, conn_peerId = None, conn_peerMetadata = None\<rparr>)],
      isConnected = True, this_peerId = Some [], this_peerMetadata = None,
      readyState = (\<lambda>w. OPEN), sendThrows = (\<lambda>w. True), trace = []\<rparr>"
  by (simp add: empty_self_id_def run_def new_adapter_def connect_def addConnection_def)

text \<open>
  A record is rewritten by a join frame on its socket only: every other operation that
  keeps the socket registered leaves it as it is.
\<close>

lemma removeConnection_connections:
  "connections (removeConnection s w) = AList.delete w (connections s)"
  by (simp add: removeConnection_def Let_def)

lemma step_keeps_record:
  assumes "case op of
             AddConnection w' \<Rightarrow> w' \<noteq> w
           | RemoveConnection w' \<Rightarrow> w' \<noteq> w
           | HandleMessage w' m \<Rightarrow>
               w' \<noteq> w \<or>
               (case cbor_decode codec (toUint8Array codec m) of
                  None \<Rightarrow> True
                | Some d \<Rightarrow> msg_type d \<noteq> ''join'')
           | Disconnect \<Rightarrow> False
           | _ \<Rightarrow> True"
  shows "map_of (connections (step codec s op)) w = map_of (connections s) w"
proof (cases op)
  case (AddConnection w')
  then show ?thesis using assms by (simp add: addConnection_def update_conv')
next
  case (RemoveConnection w')
  then show ?thesis using assms by (simp add: removeConnection_connections delete_conv')
next
  case (HandleMessage w' m)
  then show ?thesis using assms
    by (auto simp: handleMessage_connections update_conv' split: option.splits)
next
  case (Connect pid md)
  then show ?thesis by (simp add: connect_def Let_def)
next
  case (Send m)
  then show ?thesis by (simp add: send_fields)
next
  case Disconnect
  then show ?thesis using assms by simp
next
  case (Transport w' rs)
  then show ?thesis by simp
next
  case (TransportThrows w' b)
  then show ?thesis by simp
qed

lemma run_Cons: "run codec s (op # ops) = run codec (step codec s op) ops"
  by (simp add: run_def)

lemma run_keeps_record:
  assumes "\<forall>op \<in> set ops.
           case op of
             AddConnection w' \<Rightarrow> w' \<noteq> w
           | RemoveConnection w' \<Rightarrow> w' \<noteq> w
           | HandleMessage w' m \<Rightarrow>
               w' \<noteq> w \<or>
               (case cbor_decode codec (toUint8Array codec m) of
                  None \<Rightarrow> True
                | Some d \<Rightarrow> msg_type d \<noteq> ''join'')
           | Disconnect \<Rightarrow> False
           | _ \<Rightarrow> True"
  shows "map_of (connections (run codec s ops)) w = map_of (connections s) w"
  using assms
proof (induction ops arbitrary: s)
  case Nil
  show ?case by (simp add: run_def)
next
  case (Cons op ops)
  have "map_of (connections (run codec (step codec s op) ops)) w =
      map_of (connections (step codec s op)) w"
    using Cons.prems by (intro Cons.IH) simp
  also have "\<dots> = map_of (connections s) w"
    using Cons.prems by (intro step_keeps_record) simp
  finally show ?case by (simp add: run_Cons)
qed

lemma handleMessage_join_record:
  assumes "map_of (connections s) w = Some c"
    and "cbor_decode codec (toUint8Array codec m) = Some j" and "msg_type j = ''join''"
  shows "map_of (connections (fst (handleMessage codec s w m))) w =
     Some (c\<lparr>conn_peerId := Some (senderId j), conn_peerMetadata := peerMetadata j\<rparr>)"
  using assms by (simp add: handleMessage_connections map_of_update_same)

text \<open>
  Claim C3, as stated: after a join frame with \<open>senderId\<close> A, a second join frame with
  \<open>senderId\<close> B leaves the recorded identity equal to A. \<open>handleMessage\<close> assigns
  \<open>connection.peerId\<close> on every join frame: the identity is B.
\<close>

theorem second_join_overwrites_identity:
  "map_option conn_peerId
     (map_of (connections (fst (handleMessage sample_codec one_socket 0 (Text ''JA'')))) 0) =
     Some (Some ''A'') \<and>
   map_option conn_peerId
     (map_of (connections
        (fst (handleMessage sample_codec
           (fst (handleMessage sample_codec one_socket 0 (Text ''JA''))) 0 (Text ''JB'')))) 0) =
     Some (Some ''B'') \<and>
   map_option conn_peerId
     (map_of (connections
        (fst (handleMessage sample_codec
           (fst (handleMessage sample_codec one_socket 0 (Text ''JA''))) 0 (Text ''JB'')))) 0) \<noteq>
     Some (Some ''A'')"
  by (simp add: handleMessage_connections one_socket_eq toUint8Array_def sample_codec_def
      sample_decode_def)

text \<open>
  Claim C3, amended: the peer identity of a connection record is unset when the
  connection is registered and is set by the first join frame to that frame's
  \<open>senderId\<close>. For as long as the record lives (until the socket is removed or
  registered anew, or the relay disconnects) the identity is changed by nothing but a
  join frame on the same connection, which replaces it by that frame's \<open>senderId\<close>:
  a second join frame with \<open>senderId\<close> B replaces A by B, and every run of other
  operations (data frames and malformed frames on the connection, frames on other
  connections, \<open>send\<close>, \<open>connect\<close>, registration and removal of other sockets,
  changes of socket state) leaves the record as it is.
\<close>

theorem peer_identity_changed_only_by_join:
  assumes "map_of (connections s) w = Some c"
  shows "map_option conn_peerId (map_of (connections (addConnection s w')) w') = Some None \<and>
     (\<forall>m j. cbor_decode codec (toUint8Array codec m) = Some j \<and> msg_type j = ''join'' \<longrightarrow>
        map_option conn_peerId (map_of (connections (fst (handleMessage codec s w m))) w) =
          Some (Some (senderId j))) \<and>
     (\<forall>m1 j1 m2 j2.
        cbor_decode codec (toUint8Array codec m1) = Some j1 \<and> msg_type j1 = ''join'' \<and>
        cbor_decode codec (toUint8Array codec m2) = Some j2 \<and> msg_type j2 = ''join'' \<longrightarrow>
        map_option conn_peerId
          (map_of (connections
             (fst (handleMessage codec (fst (handleMessage codec s w m1)) w m2))) w) =
          Some (Some (senderId j2))) \<and>
     (\<forall>ops.
        (\<forall>op \<in> set ops.
           case op of
             AddConnection w' \<Rightarrow> w' \<noteq> w
           | RemoveConnection w' \<Rightarrow> w' \<noteq> w
           | HandleMessage w' m \<Rightarrow>
               w' \<noteq> w \<or>
               (case cbor_decode codec (toUint8Array codec m) of
                  None \<Rightarrow> True
                | Some d \<Rightarrow> msg_type d \<noteq> ''join'')
           | Disconnect \<Rightarrow> False
           | _ \<Rightarrow> True) \<longrightarrow>
        map_of (connections (run codec s ops)) w = map_of (connections s) w)"
proof (intro conjI allI impI)
  show "map_option conn_peerId (map_of (connections (addConnection s w')) w') = Some None"
    by (simp add: addConnection_def map_of_update_same)
next
  fix m j
  assume "cbor_decode codec (toUint8Array codec m) = Some j \<and> msg_type j = ''join''"
  then show "map_option conn_peerId (map_of (connections (fst (handleMessage codec s w m))) w) =
      Some (Some (senderId j))"
    using handleMessage_join_record [OF assms, of codec m j] by simp
next
  fix m1 j1 m2 j2
  assume a: "cbor_decode codec (toUint8Array codec m1) = Some j1 \<and> msg_type j1 = ''join'' \<and>
        cbor_decode codec (toUint8Array codec m2) = Some j2 \<and> msg_type j2 = ''join''"
  then have "map_of (connections (fst (handleMessage codec s w m1))) w =
      Some (c\<lparr>conn_peerId := Some (senderId j1), conn_peerMetadata := peerMetadata j1\<rparr>)"
    using handleMessage_join_record [OF assms, of codec m1 j1] by simp
  from handleMessage_join_record [OF this, of codec m2 j2] a
  show "map_option conn_peerId
          (map_of (connections
             (fst (handleMessage codec (fst (handleMessage codec s w m1)) w m2))) w) =
          Some (Some (senderId j2))"
    by simp
next
  fix ops
  assume "\<forall>op \<in> set ops.
           case op of
             AddConnection w' \<Rightarrow> w' \<noteq> w
           | RemoveConnection w' \<Rightarrow> w' \<noteq> w
           | HandleMessage w' m \<Rightarrow>
               w' \<noteq> w \<or>
               (case cbor_decode codec (toUint8Array codec m) of
                  None \<Rightarrow> True
                | Some d \<Rightarrow> msg_type d \<noteq> ''join'')
           | Disconnect \<Rightarrow> False
           | _ \<Rightarrow> True"
  then show "map_of (connections (run codec s ops)) w = map_of (connections s) w"
    by (rule run_keeps_record)
qed

theorem peer_identity_changed_only_by_join_witness:
  "map_of (connections one_socket) 0 =
     Some \<lparr>ws = 0, conn_peerId = None, conn_peerMetadata = None\<rparr> \<and>
   map_option conn_peerId
     (map_of (connections (fst (handleMessage sample_codec one_socket 0 (Text ''JA'')))) 0) =
     Some (Some ''A'') \<and>
   map_option conn_peerId
     (map_of (connections
        (fst (handleMessage sample_codec
           (fst (handleMessage sample_codec one_socket 0 (Text ''JA''))) 0 (Binary ''JB'')))) 0) =
     Some (Some ''B'') \<and>
   map_option conn_peerId
     (map_of (connections
        (run sample_codec (fst (handleMessage sample_codec one_socket 0 (Text ''JA'')))
           [HandleMessage 0 (Text ''Mdata''), HandleMessage 0 (Binary ''xyz''),
            Send (sample_message None), Connect ''other'' None, AddConnection 1,
            HandleMessage 1 (Text ''JB''), RemoveConnection 1, Transport 0 CLOSING])) 0) =
     Some (Some ''A'')"
proof -
  have r: "map_of (connections one_socket) 0 =
      Some \<lparr>ws = 0, conn_peerId = None, conn_peerMetadata = None\<rparr>"
    by (simp add: one_socket_eq)
  have d: "cbor_decode sample_codec (toUint8Array sample_codec (Text ''JA'')) =
        Some \<lparr>msg_type = ''join'', senderId = ''A'', targetId = None, peerMetadata = None,
              supportedProtocolVersions = Some [''1''], selectedProtocolVersion = None,
              body = []\<rparr>"
      "cbor_decode sample_codec (toUint8Array sample_codec (Binary ''JB'')) =
        Some \<lparr>msg_type = ''join'', senderId = ''B'', targetId = None, peerMetadata = None,
              supportedProtocolVersions = Some [''1''], selectedProtocolVersion = None,
              body = []\<rparr>"
    by (simp_all add: sample_codec_def sample_decode_def toUint8Array_def)
  have k: "\<forall>op \<in> set [HandleMessage 0 (Text ''Mdata''), HandleMessage 0 (Binary ''xyz''),
            Send (sample_message None), Connect ''other'' None, AddConnection 1,
            HandleMessage 1 (Text ''JB''), RemoveConnection 1, Transport 0 CLOSING].
           case op of
             AddConnection w' \<Rightarrow> w' \<noteq> 0
           | RemoveConnection w' \<Rightarrow> w' \<noteq> 0
           | HandleMessage w' m \<Rightarrow>
               w' \<noteq> 0 \<or>
               (case cbor_decode sample_codec (toUint8Array sample_codec m) of
                  None \<Rightarrow> True
                | Some d \<Rightarrow> msg_type d \<noteq> ''join'')
           | Disconnect \<Rightarrow> False
           | _ \<Rightarrow> True"
    by (simp add: sample_codec_def sample_decode_def toUint8Array_def)
  note t = peer_identity_changed_only_by_join [OF r, of 0 sample_codec]
  from t d have a: "map_option conn_peerId
     (map_of (connections (fst (handleMessage sample_codec one_socket 0 (Text ''JA'')))) 0) =
     Some (Some ''A'')"
    by (metis Frame.select_convs(1,2))
  from t d have b: "map_option conn_peerId
     (map_of (connections
        (fst (handleMessage sample_codec
           (fst (handleMessage sample_codec one_socket 0 (Text ''JA''))) 0 (Binary ''JB'')))) 0) =
     Some (Some ''B'')"
    by (metis Frame.select_convs(1,2))
  have ra: "map_of (connections (fst (handleMessage sample_codec one_socket 0 (Text ''JA'')))) 0 =
      Some \<lparr>ws = 0, conn_peerId = Some ''A'', conn_peerMetadata = None\<rparr>"
    by (simp add: handleMessage_connections one_socket_eq toUint8Array_def sample_codec_def
        sample_decode_def)
  from peer_identity_changed_only_by_join [OF ra, of 0 sample_codec] k
  have "map_of (connections
        (run sample_codec (fst (handleMessage sample_codec one_socket 0 (Text ''JA'')))
           [HandleMessage 0 (Text ''Mdata''), HandleMessage 0 (Binary ''xyz''),
            Send (sample_message None), Connect ''other'' None, AddConnection 1,
            HandleMessage 1 (Text ''JB''), RemoveConnection 1, Transport 0 CLOSING])) 0 =
      map_of (connections (fst (handleMessage sample_codec one_socket 0 (Text ''JA'')))) 0"
    by blast
  with r ra a b show ?thesis by simp
qed

text \<open>
  Claim C5, as stated: every frame carrying a \<open>targetId\<close> is written to the first
  joined, open connection with that identity and to no other. \<open>send\<close> tests the
  \<open>targetId\<close> for truthiness: a frame whose \<open>targetId\<close> is the empty string (the
  identity of a peer that joined with an empty \<open>senderId\<close>) is broadcast instead.
\<close>

theorem send_empty_targetId_broadcasts:
  "targetId (sample_message (Some [])) = Some [] \<and>
   find (\<lambda>(w, c). conn_peerId c = Some [] \<and> readyState empty_id_peers w = OPEN)
     (connections empty_id_peers) =
     Some (0, \<lparr>ws = 0, conn_peerId = Some [], conn_peerMetadata = None\<rparr>) \<and>
   send sample_codec empty_id_peers (sample_message (Some [])) =
     (empty_id_peers\<lparr>trace := trace empty_id_peers @
        [CborEncode (sample_message (Some [])), WsSend 1 ''sync:relay>'']\<rparr>, None)"
  by (simp add: send_def send_broadcast_filter truthy_def empty_id_peers_connections
      empty_id_peers_readyState sample_message_def sample_codec_def sample_encode_def)

text \<open>
  Claim C5, amended: for every outbound frame carrying a non-empty \<open>targetId\<close>,
  \<open>send\<close> encodes the frame and writes it to the first connection, in registry order,
  whose recorded peer identity equals the \<open>targetId\<close> and whose socket is open, and to
  no other connection; if there is no such connection, the state and the effects are
  unchanged (nothing is written, logged or retried). No exception leaves the call.
\<close>

theorem send_unicast:
  assumes "targetId message = Some tid" and "tid \<noteq> []"
  shows "send codec s message =
     (case find (\<lambda>(w, c). conn_peerId c = Some tid \<and> readyState s w = OPEN) (connections s) of
        None \<Rightarrow> (s, None)
      | Some (w, c) \<Rightarrow>
          (s\<lparr>trace := trace s @ [CborEncode message, WsSend w (cbor_encode codec message)]\<rparr>,
           None))"
  using assms by (simp add: send_def truthy_def send_target_find)

theorem send_unicast_witness:
  "targetId (sample_message (Some ''B'')) = Some ''B'' \<and> ''B'' \<noteq> [] \<and>
   send sample_codec three_peers (sample_message (Some ''B'')) =
     (three_peers\<lparr>trace := trace three_peers @
        [CborEncode (sample_message (Some ''B'')), WsSend 1 ''sync:relay>B'']\<rparr>, None)"
  using send_unicast [of "sample_message (Some ''B'')" "''B''" sample_codec three_peers]
  by (simp add: three_peers_connections three_peers_readyState sample_message_def
      sample_codec_def sample_encode_def)

text \<open>
  Claim C6, as stated: a frame with no \<open>targetId\<close> is written to every connection
  that has a bound peer identity and an open socket. \<open>send\<close> tests
  \<open>connection.peerId\<close> for truthiness: a connection that joined with the empty
  \<open>senderId\<close> has an identity recorded and an open socket, and receives nothing.
\<close>

theorem broadcast_skips_empty_identity:
  "map_of (connections empty_id_peers) 0 =
     Some \<lparr>ws = 0, conn_peerId = Some [], conn_peerMetadata = None\<rparr> \<and>
   readyState empty_id_peers 0 = OPEN \<and>
   targetId (sample_message None) = None \<and>
   send sample_codec empty_id_peers (sample_message None) =
     (empty_id_peers\<lparr>trace := trace empty_id_peers @
        [CborEncode (sample_message None), WsSend 1 ''sync:relay>'']\<rparr>, None)"
  by (simp add: send_def send_broadcast_filter truthy_def empty_id_peers_connections
      empty_id_peers_readyState sample_message_def sample_codec_def sample_encode_def)

text \<open>
  Claim C6, amended: for every outbound frame with no \<open>targetId\<close> (or an empty one),
  \<open>send\<close> encodes the frame once and writes the encoded bytes, in registry order, to
  exactly the connections whose recorded peer identity is a non-empty string and whose
  socket is open; a connection whose peer identity is unset receives nothing. No
  exception leaves the call.
\<close>

theorem send_broadcast_joined:
  assumes "\<not> truthy (targetId message)"
  shows "send codec s message =
       (s\<lparr>trace := trace s @
            CborEncode message #
            map (\<lambda>(w, c). WsSend w (cbor_encode codec message))
              (filter (\<lambda>(w, c). truthy (conn_peerId c) \<and> readyState s w = OPEN)
                 (connections s))\<rparr>, None) \<and>
     (distinct (map fst (connections s)) \<longrightarrow>
        (\<forall>w c b. (w, c) \<in> set (connections s) \<and> conn_peerId c = None \<longrightarrow>
           WsSend w b \<notin> set (drop (length (trace s)) (trace (fst (send codec s message))))))"
proof (intro conjI impI allI)
  show e: "send codec s message =
       (s\<lparr>trace := trace s @
            CborEncode message #
            map (\<lambda>(w, c). WsSend w (cbor_encode codec message))
              (filter (\<lambda>(w, c). truthy (conn_peerId c) \<and> readyState s w = OPEN)
                 (connections s))\<rparr>, None)"
    using assms by (simp add: send_def send_broadcast_filter Let_def)
  fix w c b
  assume d: "distinct (map fst (connections s))"
    and m: "(w, c) \<in> set (connections s) \<and> conn_peerId c = None"
  show "WsSend w b \<notin> set (drop (length (trace s)) (trace (fst (send codec s message))))"
  proof
    assume "WsSend w b \<in> set (drop (length (trace s)) (trace (fst (send codec s message))))"
    then obtain c' where c': "(w, c') \<in> set (connections s)" "truthy (conn_peerId c')"
      unfolding e by auto
    from d m c'(1) have "c' = c" by (meson eq_key_imp_eq_value)
    with m c'(2) show False by (simp add: truthy_def)
  qed
qed

theorem send_broadcast_joined_witness:
  "\<not> truthy (targetId (sample_message None)) \<and>
   send sample_codec three_peers (sample_message None) =
     (three_peers\<lparr>trace := trace three_peers @
        [CborEncode (sample_message None), WsSend 0 ''sync:relay>'', WsSend 1 ''sync:relay>'',
         WsSend 2 ''sync:relay>'']\<rparr>, None)"
proof -
  have h: "\<not> truthy (targetId (sample_message None))"
    by (simp add: sample_message_def truthy_def)
  from send_broadcast_joined [OF h, of sample_codec three_peers] show ?thesis
    by (simp add: h three_peers_connections three_peers_readyState sample_message_def
      sample_codec_def sample_encode_def truthy_def)
qed

text \<open>
  Claim C7: for a registered connection and a payload on which decoding fails,
  \<open>handleMessage\<close> returns without an exception, the connection set is unchanged (the
  connection stays registered), and its only effects are the decode attempt and the
  logged error: no event is emitted.
\<close>

theorem handleMessage_malformed:
  assumes "map_of (connections s) w = Some c"
    and "cbor_decode codec (toUint8Array codec message) = None"
  shows "snd (handleMessage codec s w message) = None \<and>
     connections (fst (handleMessage codec s w message)) = connections s \<and>
     map_of (connections (fst (handleMessage codec s w message))) w = Some c \<and>
     trace (fst (handleMessage codec s w message)) =
       trace s @ [CborDecode (toUint8Array codec message), ConsoleError DecodeError]"
  using assms by (simp add: handleMessage_def handleMessage_try_def Let_def)

theorem handleMessage_malformed_witness:
  "map_of (connections one_socket) 0 =
     Some \<lparr>ws = 0, conn_peerId = None, conn_peerMetadata = None\<rparr> \<and>
   cbor_decode sample_codec (toUint8Array sample_codec (Binary ''xyz'')) = None \<and>
   snd (handleMessage sample_codec one_socket 0 (Binary ''xyz'')) = None \<and>
   connections (fst (handleMessage sample_codec one_socket 0 (Binary ''xyz''))) =
     connections one_socket \<and>
   trace (fst (handleMessage sample_codec one_socket 0 (Binary ''xyz''))) =
     [CborDecode ''xyz'', ConsoleError DecodeError]"
proof -
  have r: "map_of (connections one_socket) 0 =
      Some \<lparr>ws = 0, conn_peerId = None, conn_peerMetadata = None\<rparr>"
    by (simp add: one_socket_eq)
  have d: "cbor_decode sample_codec (toUint8Array sample_codec (Binary ''xyz'')) = None"
    by (simp add: sample_codec_def sample_decode_def toUint8Array_def)
  have t: "trace one_socket = []" "toUint8Array sample_codec (Binary ''xyz'') = ''xyz''"
    by (simp_all add: one_socket_eq toUint8Array_def)
  from handleMessage_malformed [OF r d] r d show ?thesis by (simp add: t)
qed

lemma closing_socket_eq:
  "closing_socket =
     \<lparr>connections = [(0, \<lparr>ws = 0, conn_peerId = None, conn_peerMetadata = None\<rparr>)],
      isConnected = False, this_peerId = Some ''relay'', this_peerMetadata = None,
      readyState = (\<lambda>w. OPEN)(0 := CLOSING), sendThrows = (\<lambda>w. True), trace = []\<rparr>"
  by (simp add: closing_socket_def run_def new_adapter_def connect_def addConnection_def)

text \<open>
  Claim C9, as stated: whenever the relay's identity is bound, a join frame is answered
  with a peer frame, and in either case a peer-candidate event follows.
  \<open>handleMessage\<close> tests \<open>this.peerId\<close> for truthiness: a relay bound by
  \<open>connect\<close> to the empty peer id (for which \<open>isReady()\<close> holds) sends no reply.
  And the reply is written inside the \<open>try\<close> block, before the event: when that
  write throws, the exception is logged and no peer-candidate event is emitted.
\<close>

theorem join_reply_or_notification_missing:
  "this_peerId empty_self_id = Some [] \<and> isReady empty_self_id \<and>
   readyState empty_self_id 0 = OPEN \<and>
   trace (fst (handleMessage sample_codec empty_self_id 0 (Text ''JA''))) =
     [CborDecode ''JA'', Emit (PeerCandidate ''A'' [])] \<and>
   this_peerId closing_socket = Some ''relay'' \<and>
   trace (fst (handleMessage sample_codec closing_socket 0 (Text ''JA''))) =
     [CborDecode ''JA'',
      CborEncode \<lparr>msg_type = ''peer'', senderId = ''relay'', targetId = Some ''A'',
                  peerMetadata = None, supportedProtocolVersions = None,
                  selectedProtocolVersion = Some ''1'', body = []\<rparr>,
      ConsoleError InvalidStateError]"
  by (simp add: empty_self_id_eq closing_socket_eq isReady_def handleMessage_def
      handleMessage_try_def Let_def toUint8Array_def sample_codec_def sample_decode_def
      emit_def truthy_def ws_send_def)

text \<open>
  Claim C9, amended: for a registered connection, when \<open>handleMessage\<close> decodes a
  frame of type \<open>join\<close> it records the frame's \<open>senderId\<close> and \<open>peerMetadata\<close> on
  the connection record; if the relay's own identity is set and not the empty string it
  encodes the frame \<open>{type: 'peer', senderId: selfId, peerMetadata: selfMetadata,
  targetId: senderId of the join frame, selectedProtocolVersion: '1'}\<close> and writes it
  to that socket, and otherwise writes nothing; unless that write throws, it then emits
  a peer-candidate event with the joined peer's id and its metadata, the empty object
  when the metadata is absent. No exception leaves the call. (The statement also gives
  the effects when the write throws: the encode and the logged exception.)
\<close>

theorem handleMessage_join:
  assumes "map_of (connections s) w = Some c"
    and "cbor_decode codec (toUint8Array codec message) = Some decoded"
    and "msg_type decoded = ''join''"
  shows "snd (handleMessage codec s w message) = None \<and>
     connections (fst (handleMessage codec s w message)) =
       AList.update w (c\<lparr>conn_peerId := Some (senderId decoded),
                          conn_peerMetadata := peerMetadata decoded\<rparr>) (connections s) \<and>
     map_of (connections (fst (handleMessage codec s w message))) w =
       Some (c\<lparr>conn_peerId := Some (senderId decoded),
               conn_peerMetadata := peerMetadata decoded\<rparr>) \<and>
     trace (fst (handleMessage codec s w message)) =
       trace s @ [CborDecode (toUint8Array codec message)] @
       (let candidate =
              Emit (PeerCandidate (senderId decoded)
                      (case peerMetadata decoded of None \<Rightarrow> [] | Some md \<Rightarrow> md))
        in case this_peerId s of
             None \<Rightarrow> [candidate]
           | Some selfId \<Rightarrow>
               if selfId = [] then [candidate]
               else
                 (let peerMessage =
                        \<lparr>msg_type = ''peer'', senderId = selfId,
                         targetId = Some (senderId decoded),
                         peerMetadata = this_peerMetadata s, supportedProtocolVersions = None,
                         selectedProtocolVersion = Some ''1'', body = []\<rparr>
                  in if readyState s w \<noteq> OPEN \<and> sendThrows s w
                     then [CborEncode peerMessage, ConsoleError InvalidStateError]
                     else [CborEncode peerMessage, WsSend w (cbor_encode codec peerMessage),
                           candidate]))"
proof (intro conjI)
  show "snd (handleMessage codec s w message) = None" by (rule handleMessage_no_escape)
  show u: "connections (fst (handleMessage codec s w message)) =
       AList.update w (c\<lparr>conn_peerId := Some (senderId decoded),
                          conn_peerMetadata := peerMetadata decoded\<rparr>) (connections s)"
    using assms by (simp add: handleMessage_connections)
  show "map_of (connections (fst (handleMessage codec s w message))) w =
       Some (c\<lparr>conn_peerId := Some (senderId decoded),
               conn_peerMetadata := peerMetadata decoded\<rparr>)"
    unfolding u by (rule map_of_update_same)
  show "trace (fst (handleMessage codec s w message)) =
       trace s @ [CborDecode (toUint8Array codec message)] @
       (let candidate =
              Emit (PeerCandidate (senderId decoded)
                      (case peerMetadata decoded of None \<Rightarrow> [] | Some md \<Rightarrow> md))
        in case this_peerId s of
             None \<Rightarrow> [candidate]
           | Some selfId \<Rightarrow>
               if selfId = [] then [candidate]
               else
                 (let peerMessage =
                        \<lparr>msg_type = ''peer'', senderId = selfId,
                         targetId = Some (senderId decoded),
                         peerMetadata = this_peerMetadata s, supportedProtocolVersions = None,
                         selectedProtocolVersion = Some ''1'', body = []\<rparr>
                  in if readyState s w \<noteq> OPEN \<and> sendThrows s w
                     then [CborEncode peerMessage, ConsoleError InvalidStateError]
                     else [CborEncode peerMessage, WsSend w (cbor_encode codec peerMessage),
                           candidate]))"
  proof (cases "this_peerId s")
    case None
    then show ?thesis using assms
      by (simp add: handleMessage_def handleMessage_try_def Let_def emit_def)
  next
    case (Some selfId)
    show ?thesis
    proof (cases "selfId = []")
      case True
      then show ?thesis using Some assms
        by (simp add: handleMessage_def handleMessage_try_def Let_def emit_def)
    next
      case False
      then show ?thesis using Some assms
        by (cases "readyState s w \<noteq> OPEN \<and> sendThrows s w")
          (simp_all add: handleMessage_def handleMessage_try_def Let_def emit_def ws_send_def)
    qed
  qed
qed

theorem handleMessage_join_witness:
  "map_of (connections one_socket) 0 =
     Some \<lparr>ws = 0, conn_peerId = None, conn_peerMetadata = None\<rparr> \<and>
   map_of (connections (fst (handleMessage sample_codec one_socket 0 (Text ''JA'')))) 0 =
     Some \<lparr>ws = 0, conn_peerId = Some ''A'', conn_peerMetadata = None\<rparr> \<and>
   trace (fst (handleMessage sample_codec one_socket 0 (Text ''JA''))) =
     [CborDecode ''JA'',
      CborEncode \<lparr>msg_type = ''peer'', senderId = ''relay'', targetId = Some ''A'',
                  peerMetadata = None, supportedProtocolVersions = None,
                  selectedProtocolVersion = Some ''1'', body = []\<rparr>,
      WsSend 0 ''peer:relay>A'',
      Emit (PeerCandidate ''A'' [])]"
proof -
  have r: "map_of (connections one_socket) 0 =
      Some \<lparr>ws = 0, conn_peerId = None, conn_peerMetadata = None\<rparr>"
    by (simp add: one_socket_eq)
  have d: "cbor_decode sample_codec (toUint8Array sample_codec (Text ''JA'')) =
      Some \<lparr>msg_type = ''join'', senderId = ''A'', targetId = None, peerMetadata = None,
            supportedProtocolVersions = Some [''1''], selectedProtocolVersion = None,
            body = []\<rparr>"
    by (simp add: sample_codec_def sample_decode_def toUint8Array_def)
  have j: "msg_type \<lparr>msg_type = ''join'', senderId = ''A'', targetId = None, peerMetadata = None,
            supportedProtocolVersions = Some [''1''], selectedProtocolVersion = None,
            body = []\<rparr> = ''join''"
    by simp
  have t: "trace one_socket = []" "this_peerId one_socket = Some ''relay''"
    "this_peerMetadata one_socket = None" "readyState one_socket 0 = OPEN"
    "toUint8Array sample_codec (Text ''JA'') = ''JA''"
    "cbor_encode sample_codec = sample_encode"
    by (simp_all add: one_socket_eq toUint8Array_def sample_codec_def)
  from handleMessage_join [OF r d j] r show ?thesis
    by (simp add: t sample_encode_def map_of_update_same Let_def)
qed

text \<open>
  Claim C10: for a socket that is not in the connection registry, \<open>handleMessage\<close>
  returns at once: the adapter state is unchanged, with its connection set, its
  readiness flag and its effects (no decode, no event, no write), and no exception
  leaves the call.
\<close>

theorem handleMessage_unknown_socket:
  "map_of (connections s) w = None \<Longrightarrow> handleMessage codec s w message = (s, None)"
  by (simp add: handleMessage_def)

theorem handleMessage_unknown_socket_witness:
  "map_of (connections one_socket) 7 = None \<and>
   handleMessage sample_codec one_socket 7 (Text ''JA'') = (one_socket, None)"
  using handleMessage_unknown_socket [of one_socket 7 sample_codec "Text ''JA''"]
  by (simp add: one_socket_eq)

end
